theory Spec2Isabelle
  imports Main
begin

section \<open>Data model\<close>

text \<open>
  The order workflow of \<^verbatim>\<open>tracker/views_start_order.py\<close> and the admin rules of
  \<^verbatim>\<open>tracker/admin.py\<close>. Timestamps are counted in whole seconds, primary keys
  are natural numbers, a nullable column is an \<open>option\<close>, and a table is the list of its
  rows in primary-key order.
\<close>

type_synonym time = int

datatype status = Created | In_progress | Overdue | Completed | Cancelled

record branch =
  branch_id :: nat
  branch_parent :: "nat option"

record customer =
  customer_id :: nat
  customer_branch :: "nat option"
  full_name :: string
  phone :: "string option"
  email :: "string option"
  address :: "string option"
  customer_type :: string
  personal_subtype :: "string option"
  organization_name :: "string option"
  tax_number :: "string option"
  total_visits :: nat
  last_visit :: "time option"

record vehicle =
  vehicle_id :: nat
  vehicle_customer :: nat
  plate_number :: string
  vehicle_make :: "string option"
  vehicle_model :: "string option"

record order =
  order_id :: nat
  order_branch :: "nat option"
  order_customer :: nat
  order_vehicle :: "nat option"
  order_type :: string
  order_status :: status
  priority :: string
  description :: string
  item_name :: "string option"
  brand :: "string option"
  quantity :: "int option"
  tire_type :: "string option"
  estimated_duration :: "int option"
  actual_duration :: "int option"
  created_at :: time
  started_at :: "time option"
  completed_at :: "time option"
  cancelled_at :: "time option"
  completion_date :: "time option"
  delay_reason :: "nat option"
  delay_reason_reported_at :: "time option"
  delay_reason_reported_by :: "nat option"
  exceeded_9_hours :: bool
  overrun_reason :: "string option"
  overrun_reported_at :: "time option"
  overrun_reported_by :: "nat option"

record labour_code =
  lc_id :: nat
  lc_code :: string
  lc_description :: string
  lc_item_name :: "string option"
  lc_brand :: "string option"
  lc_quantity :: "int option"
  lc_tire_type :: "string option"
  lc_is_active :: bool

record inventory_item =
  inv_id :: nat
  inv_name :: string
  inv_brand :: "string option"

record service_entry =
  svc_name :: string
  svc_estimated_minutes :: "int option"
  svc_is_active :: bool

record db =
  customers :: "customer list"
  vehicles :: "vehicle list"
  orders :: "order list"

text \<open>
  The principal of a request as the views see it: \<open>user_branch\<close> is the value
  \<^verbatim>\<open>get_user_branch(request.user)\<close> returned (\<^verbatim>\<open>tracker/utils\<close> is not among the
  sources, so its result is an input here).
\<close>

record ctx =
  user_id :: nat
  is_superuser :: bool
  is_staff :: bool
  user_branch :: "nat option"

text \<open>
  A form or JSON field that the code passes to \<^verbatim>\<open>int(...)\<close>, classified by what the
  code does with it: absent or empty (falsy), a non-empty string on which \<^verbatim>\<open>int\<close>
  raises \<^verbatim>\<open>ValueError\<close>, or a string that parses to a number.
\<close>

datatype int_field = Missing | Malformed | Parsed int

section \<open>Python helpers\<close>

definition truthy :: "string option \<Rightarrow> bool" where
  "truthy s = (case s of None \<Rightarrow> False | Some t \<Rightarrow> t \<noteq> [])"

definition or_none :: "string option \<Rightarrow> string option" where
  "or_none s = (if truthy s then s else None)"

definition or_default :: "string option \<Rightarrow> string \<Rightarrow> string" where
  "or_default s d = (case s of None \<Rightarrow> d | Some t \<Rightarrow> if t = [] then d else t)"

definition truthy_int :: "int option \<Rightarrow> bool" where
  "truthy_int n = (case n of None \<Rightarrow> False | Some k \<Rightarrow> k \<noteq> 0)"

definition is_space :: "char \<Rightarrow> bool" where
  "is_space c = (of_char c \<in> {9, 10, 11, 12, 13, 28, 29, 30, 31, 32 :: nat})"

definition upper_char :: "char \<Rightarrow> char" where
  "upper_char c =
     (if 97 \<le> (of_char c :: nat) \<and> (of_char c :: nat) \<le> 122
      then char_of ((of_char c :: nat) - 32) else c)"

definition lower_char :: "char \<Rightarrow> char" where
  "lower_char c =
     (if 65 \<le> (of_char c :: nat) \<and> (of_char c :: nat) \<le> 90
      then char_of ((of_char c :: nat) + 32) else c)"

definition strip :: "string \<Rightarrow> string" where
  "strip s = rev (dropWhile is_space (rev (dropWhile is_space s)))"

definition upper :: "string \<Rightarrow> string" where
  "upper s = map upper_char s"

definition lower :: "string \<Rightarrow> string" where
  "lower s = map lower_char s"

text \<open>\<^verbatim>\<open>plate_number__iexact\<close>: equality up to the case of the letters.\<close>

definition iexact :: "string \<Rightarrow> string \<Rightarrow> bool" where
  "iexact a b = (upper a = upper b)"

fun join :: "string \<Rightarrow> string list \<Rightarrow> string" where
  "join sep [] = []"
| "join sep [x] = x"
| "join sep (x # y # ys) = x @ sep @ join sep (y # ys)"

section \<open>Queries\<close>

definition get_order :: "order list \<Rightarrow> nat \<Rightarrow> order option" where
  "get_order os i = find (\<lambda>x. order_id x = i) os"

definition get_order_in_branch :: "order list \<Rightarrow> nat \<Rightarrow> nat option \<Rightarrow> order option" where
  "get_order_in_branch os i b = find (\<lambda>x. order_id x = i \<and> order_branch x = b) os"

definition get_customer :: "customer list \<Rightarrow> nat \<Rightarrow> customer option" where
  "get_customer cs i = find (\<lambda>c. customer_id c = i) cs"

definition save_order :: "order \<Rightarrow> order list \<Rightarrow> order list" where
  "save_order o' os = map (\<lambda>x. if order_id x = order_id o' then o' else x) os"

definition save_customer :: "customer \<Rightarrow> customer list \<Rightarrow> customer list" where
  "save_customer c' cs = map (\<lambda>c. if customer_id c = customer_id c' then c' else c) cs"

text \<open>
  The lookup the JSON endpoints share (\<^verbatim>\<open>api_quick_stop_order\<close>,
  \<^verbatim>\<open>api_record_overrun_reason\<close>, \<^verbatim>\<open>api_update_order_from_extraction\<close>): filtered
  by the caller's branch unless the caller is staff or superuser or has no branch.
\<close>

definition is_admin :: "ctx \<Rightarrow> bool" where
  "is_admin u = (is_superuser u \<or> is_staff u)"

definition scoped_order :: "order list \<Rightarrow> ctx \<Rightarrow> nat \<Rightarrow> order option" where
  "scoped_order os u i =
     (if user_branch u \<noteq> None \<and> \<not> is_admin u
      then get_order_in_branch os i (user_branch u)
      else get_order os i)"

section \<open>Branch admin: the visible branches\<close>

record admin_user =
  au_is_superuser :: bool
  au_branch :: "branch option"

text \<open>\<^verbatim>\<open>BranchAdmin.get_queryset\<close>.\<close>

definition get_queryset :: "admin_user \<Rightarrow> branch list \<Rightarrow> branch list" where
  "get_queryset u qs =
     (if au_is_superuser u then qs
      else case au_branch u of
        None \<Rightarrow> []
      | Some ub \<Rightarrow>
          if branch_parent ub = None
          then filter (\<lambda>b. branch_id b = branch_id ub \<or> branch_parent b = Some (branch_id ub)) qs
          else filter (\<lambda>b. branch_id b = branch_id ub) qs)"

section \<open>Order admin: the transition table\<close>

text \<open>\<^verbatim>\<open>OrderAdmin.formfield_for_choice_field\<close>: the statuses offered for an order.\<close>

fun transitions :: "status \<Rightarrow> status list" where
  "transitions Created = [In_progress, Cancelled]"
| "transitions In_progress = [Overdue, Completed, Cancelled]"
| "transitions Overdue = [Completed, Cancelled]"
| "transitions Completed = []"
| "transitions Cancelled = []"

definition all_choices :: "status list" where
  "all_choices = [Created, In_progress, Overdue, Completed, Cancelled]"

definition status_choices :: "status option \<Rightarrow> status list" where
  "status_choices obj =
     (case obj of
        None \<Rightarrow> [Created]
      | Some current \<Rightarrow> filter (\<lambda>k. k \<in> set (transitions current @ [current])) all_choices)"

text \<open>
  \<^verbatim>\<open>OrderAdmin.save_model\<close> for an existing order: \<open>old_obj\<close> is the stored row,
  \<open>obj\<close> the row as the form edited it. A timestamp is written when the status changed,
  and only where none is there.
\<close>

definition save_model :: "time \<Rightarrow> order \<Rightarrow> order \<Rightarrow> order" where
  "save_model now old_obj obj =
     (if order_status old_obj \<noteq> order_status obj
      then (if order_status obj = Completed \<and> completed_at obj = None
            then obj\<lparr>completed_at := Some now\<rparr>
            else if order_status obj = Cancelled \<and> cancelled_at obj = None
            then obj\<lparr>cancelled_at := Some now\<rparr>
            else if order_status obj = In_progress \<and> started_at obj = None
            then obj\<lparr>started_at := Some now\<rparr>
            else obj)
      else obj)"

section \<open>Quick stop\<close>

datatype response =
    Bad_request
  | Server_error
  | Success nat

text \<open>
  \<^verbatim>\<open>api_quick_stop_order\<close>. A missing order raises \<^verbatim>\<open>Http404\<close> inside the
  \<^verbatim>\<open>try\<close>, which the handler turns into the status-500 answer, as it does the
  \<^verbatim>\<open>ValueError\<close> of \<^verbatim>\<open>int(order_id)\<close>.
\<close>

definition quick_stop :: "time \<Rightarrow> order \<Rightarrow> order" where
  "quick_stop now order =
     (let o1 = (if started_at order = None then order\<lparr>started_at := Some now\<rparr> else order);
          o2 = o1\<lparr>order_status := Completed, completed_at := Some now, completion_date := Some now\<rparr>;
          reference = (case started_at o2 of Some s \<Rightarrow> s | None \<Rightarrow> created_at o2)
      in o2\<lparr>actual_duration := Some ((now - reference) div 60)\<rparr>)"

definition api_quick_stop_order :: "db \<Rightarrow> ctx \<Rightarrow> int_field \<Rightarrow> time \<Rightarrow> response \<times> db" where
  "api_quick_stop_order d u order_id_field now =
     (case order_id_field of
        Missing \<Rightarrow> (Bad_request, d)
      | Malformed \<Rightarrow> (Server_error, d)
      | Parsed i \<Rightarrow>
          (if i < 0 then (Server_error, d)
           else case scoped_order (orders d) u (nat i) of
             None \<Rightarrow> (Server_error, d)
           | Some order \<Rightarrow>
               (Success (order_id order), d\<lparr>orders := save_order (quick_stop now order) (orders d)\<rparr>)))"

section \<open>Recording an overrun reason\<close>

text \<open>\<^verbatim>\<open>api_record_overrun_reason\<close>; \<open>reason\<close> is the JSON field, \<open>None\<close> when absent.\<close>

definition record_overrun :: "nat \<Rightarrow> time \<Rightarrow> string \<Rightarrow> order \<Rightarrow> order" where
  "record_overrun uid now reason order =
     order\<lparr>overrun_reason := Some reason, overrun_reported_at := Some now,
           overrun_reported_by := Some uid\<rparr>"

definition api_record_overrun_reason ::
  "db \<Rightarrow> ctx \<Rightarrow> nat \<Rightarrow> string option \<Rightarrow> time \<Rightarrow> response \<times> db" where
  "api_record_overrun_reason d u oid reason_field now =
     (let reason = strip (or_default reason_field [])
      in if reason = [] then (Bad_request, d)
         else case scoped_order (orders d) u oid of
           None \<Rightarrow> (Server_error, d)
         | Some order \<Rightarrow>
             (Success (order_id order),
              d\<lparr>orders := save_order (record_overrun (user_id u) now reason order) (orders d)\<rparr>))"

section \<open>The started-order detail view\<close>

record catalog =
  labour_codes :: "labour_code list"
  inventory_items :: "inventory_item list"
  delay_reasons :: "nat list"
  service_types :: "service_entry list"
  service_addons :: "service_entry list"

subsection \<open>Action \<^verbatim>\<open>update_customer\<close>\<close>

text \<open>A field of the form is \<open>None\<close> when the POST does not carry it.\<close>

record customer_form =
  uf_full_name :: "string option"
  uf_phone :: "string option"
  uf_email :: "string option"
  uf_address :: "string option"
  uf_customer_type :: "string option"
  uf_personal_subtype :: "string option"

definition update_customer :: "customer_form \<Rightarrow> customer \<Rightarrow> customer" where
  "update_customer f c =
     (let c1 = c\<lparr>full_name := (case uf_full_name f of None \<Rightarrow> full_name c | Some v \<Rightarrow> v),
                 phone := (case uf_phone f of None \<Rightarrow> phone c | Some v \<Rightarrow> Some v),
                 email := or_none (case uf_email f of None \<Rightarrow> email c | Some v \<Rightarrow> Some v),
                 address := or_none (case uf_address f of None \<Rightarrow> address c | Some v \<Rightarrow> Some v),
                 customer_type :=
                   (case uf_customer_type f of None \<Rightarrow> customer_type c | Some v \<Rightarrow> v)\<rparr>;
          subtype = strip (or_default (uf_personal_subtype f) [])
      in if subtype \<noteq> [] then c1\<lparr>personal_subtype := Some subtype\<rparr> else c1)"

subsection \<open>Action \<^verbatim>\<open>update_order_details\<close>\<close>

record details_form =
  df_services :: "string list"
  df_labour_codes :: "int_field list"
  df_estimated_duration :: int_field
  df_item_id :: int_field
  df_item_quantity :: int_field
  df_order_type :: "string option"
  df_labour_code_id :: int_field
  df_item_name_manual :: "string option"
  df_item_brand_manual :: "string option"

definition find_labour_code :: "labour_code list \<Rightarrow> int \<Rightarrow> labour_code option" where
  "find_labour_code lcs i = find (\<lambda>l. int (lc_id l) = i \<and> lc_is_active l) lcs"

definition find_inventory_item :: "inventory_item list \<Rightarrow> int \<Rightarrow> inventory_item option" where
  "find_inventory_item its i = find (\<lambda>t. int (inv_id t) = i) its"

definition change_order_type :: "string option \<Rightarrow> order \<Rightarrow> order" where
  "change_order_type new_order_type order =
     (case or_none new_order_type of
        None \<Rightarrow> order
      | Some t \<Rightarrow>
          if t \<noteq> order_type order
          then (let old_type = order_type order;
                    o1 = order\<lparr>order_type := t\<rparr>;
                    o2 = (if old_type = ''sales''
                          then o1\<lparr>item_name := None, brand := None, quantity := None\<rparr> else o1)
                in o2\<lparr>description := []\<rparr>)
          else order)"

definition set_quantity :: "int_field \<Rightarrow> order \<Rightarrow> order" where
  "set_quantity q order = (case q of Parsed n \<Rightarrow> order\<lparr>quantity := Some n\<rparr> | _ \<Rightarrow> order)"

text \<open>Priority 1: the labour code. The flag is \<^verbatim>\<open>item_updated\<close>.\<close>

definition use_labour_code :: "labour_code list \<Rightarrow> int_field \<Rightarrow> order \<Rightarrow> order \<times> bool" where
  "use_labour_code lcs labour_code_id order =
     (case labour_code_id of
        Parsed i \<Rightarrow>
          (case find_labour_code lcs i of
             None \<Rightarrow> (order, False)
           | Some lc \<Rightarrow>
               if truthy (lc_item_name lc)
               then (let o1 = order\<lparr>item_name := lc_item_name lc,
                                      brand := Some (or_default (lc_brand lc) ''Unbranded'')\<rparr>;
                         o2 = (if truthy_int (lc_quantity lc)
                               then o1\<lparr>quantity := lc_quantity lc\<rparr> else o1);
                         o3 = (if truthy (lc_tire_type lc)
                               then o2\<lparr>tire_type := lc_tire_type lc\<rparr> else o2)
                     in (o3, True))
               else (order, False))
      | _ \<Rightarrow> (order, False))"

text \<open>Priority 2: the manual entry.\<close>

definition use_manual_item ::
  "string option \<Rightarrow> string option \<Rightarrow> int_field \<Rightarrow> order \<times> bool \<Rightarrow> order \<times> bool" where
  "use_manual_item item_name_manual item_brand_manual item_quantity st =
     (case st of (order, item_updated) \<Rightarrow>
        if \<not> item_updated \<and> truthy item_name_manual
        then (set_quantity item_quantity
                (order\<lparr>item_name := item_name_manual,
                       brand := Some (or_default item_brand_manual ''Unbranded'')\<rparr>), True)
        else (order, item_updated))"

text \<open>Priority 3: the inventory item.\<close>

definition use_inventory_item ::
  "inventory_item list \<Rightarrow> int_field \<Rightarrow> int_field \<Rightarrow> order \<times> bool \<Rightarrow> order \<times> bool" where
  "use_inventory_item its item_id item_quantity st =
     (case st of (order, item_updated) \<Rightarrow>
        if item_updated then (order, item_updated)
        else (case item_id of
                Parsed i \<Rightarrow>
                  (case find_inventory_item its i of
                     None \<Rightarrow> (order, item_updated)
                   | Some item \<Rightarrow>
                       (set_quantity item_quantity
                          (order\<lparr>item_name := Some (inv_name item),
                                 brand := Some (case inv_brand item of
                                                  None \<Rightarrow> ''Unbranded'' | Some b \<Rightarrow> b)\<rparr>),
                        True))
              | _ \<Rightarrow> (order, item_updated)))"

definition update_item :: "catalog \<Rightarrow> details_form \<Rightarrow> order \<Rightarrow> order" where
  "update_item cat f order =
     (if order_type order \<in> {''sales'', ''service'', ''labour''}
      then fst (use_inventory_item (inventory_items cat) (df_item_id f) (df_item_quantity f)
             (use_manual_item (or_none (df_item_name_manual f)) (or_none (df_item_brand_manual f))
                (df_item_quantity f)
                (use_labour_code (labour_codes cat) (df_labour_code_id f) order)))
      else order)"

text \<open>The description ledger: one line per kind of entry.\<close>

fun split_on :: "char \<Rightarrow> string \<Rightarrow> string list" where
  "split_on c [] = [[]]"
| "split_on c (x # xs) =
     (if x = c then [] # split_on c xs
      else case split_on c xs of [] \<Rightarrow> [[x]] | y # ys \<Rightarrow> (x # y) # ys)"

definition startswith :: "string \<Rightarrow> string \<Rightarrow> bool" where
  "startswith s p = (take (length p) s = p)"

definition line_kind :: "string \<Rightarrow> string \<Rightarrow> bool" where
  "line_kind p l = startswith (lower (strip l)) p"

definition newline :: char where
  "newline = char_of (10 :: nat)"

definition labour_code_items :: "labour_code list \<Rightarrow> int_field list \<Rightarrow> string list" where
  "labour_code_items lcs ids =
     concat (map (\<lambda>f. case f of
                        Parsed i \<Rightarrow> (case find_labour_code lcs i of
                                       None \<Rightarrow> []
                                     | Some lc \<Rightarrow> [lc_code lc @ '' - '' @ lc_description lc])
                      | _ \<Rightarrow> []) ids)"

definition store_labour_codes :: "catalog \<Rightarrow> details_form \<Rightarrow> order \<Rightarrow> order" where
  "store_labour_codes cat f order =
     (if df_labour_codes f \<noteq> [] \<and> order_type order \<in> {''service'', ''labour''}
      then (let items = labour_code_items (labour_codes cat) (df_labour_codes f)
            in if items \<noteq> []
               then (let lines = filter (\<lambda>l. \<not> line_kind ''labour codes:'' l)
                                   (split_on newline (description order))
                                 @ [''Labour Codes: '' @ join ''; '' items]
                     in order\<lparr>description :=
                          join [newline] (filter (\<lambda>l. strip l \<noteq> []) lines)\<rparr>)
               else order)
      else order)"

definition store_services :: "details_form \<Rightarrow> order \<Rightarrow> order" where
  "store_services f order =
     (if df_services f \<noteq> []
      then (let svc_text = join '', '' (df_services f);
                lines = filter (\<lambda>l. \<not> (line_kind ''services:'' l \<or> line_kind ''add-ons:'' l
                                         \<or> line_kind ''tire services:'' l))
                          (split_on newline (description order))
                        @ [(if order_type order = ''sales''
                            then ''Tire Services: '' else ''Services: '') @ svc_text]
            in order\<lparr>description := join [newline] (filter (\<lambda>l. strip l \<noteq> []) lines)\<rparr>)
      else order)"

definition store_estimate :: "details_form \<Rightarrow> order \<Rightarrow> order" where
  "store_estimate f order =
     (case df_estimated_duration f of
        Parsed n \<Rightarrow> order\<lparr>estimated_duration := Some n\<rparr>
      | _ \<Rightarrow> order)"

definition update_order_details :: "catalog \<Rightarrow> details_form \<Rightarrow> order \<Rightarrow> order" where
  "update_order_details cat f order =
     store_estimate f (store_services f (store_labour_codes cat f
       (update_item cat f (change_order_type (df_order_type f) order))))"

subsection \<open>Action \<^verbatim>\<open>complete_order\<close>\<close>

record complete_form =
  cf_delay_reason :: int_field
  cf_comments :: "string option"

datatype detail_error = Delay_reason_required | Delay_reason_not_found | Processing_error

text \<open>
  \<open>is_order_overdue\<close> stands for \<^verbatim>\<open>tracker.utils.time_utils.is_order_overdue\<close>, which
  is not among the sources: the two-hour test on \<^verbatim>\<open>started_at\<close> against the clock.
\<close>

definition exceeds_9_hours :: "(time \<Rightarrow> bool) \<Rightarrow> order \<Rightarrow> bool" where
  "exceeds_9_hours is_order_overdue order =
     (case started_at order of
        None \<Rightarrow> False
      | Some s \<Rightarrow>
          if order_status order = In_progress then is_order_overdue s
          else (case actual_duration order of
                  None \<Rightarrow> False
                | Some a \<Rightarrow> a \<noteq> 0 \<and> a \<ge> 9 * 60))"

definition delay_reason_exists :: "nat list \<Rightarrow> int \<Rightarrow> bool" where
  "delay_reason_exists ids i = (0 \<le> i \<and> nat i \<in> set ids)"

definition stamp_delay_reason :: "nat \<Rightarrow> time \<Rightarrow> int \<Rightarrow> order \<Rightarrow> order" where
  "stamp_delay_reason uid now i order =
     order\<lparr>delay_reason := Some (nat i), delay_reason_reported_at := Some now,
           delay_reason_reported_by := Some uid\<rparr>"

definition handle_delay_reason ::
  "(time \<Rightarrow> bool) \<Rightarrow> nat list \<Rightarrow> nat \<Rightarrow> time \<Rightarrow> int_field \<Rightarrow> order \<Rightarrow> detail_error + order" where
  "handle_delay_reason is_order_overdue reasons uid now delay_reason_id order =
     (if exceeds_9_hours is_order_overdue order
      then (case delay_reason_id of
              Missing \<Rightarrow> Inl Delay_reason_required
            | Malformed \<Rightarrow> Inl Processing_error
            | Parsed i \<Rightarrow>
                if delay_reason_exists reasons i
                then Inr ((stamp_delay_reason uid now i order)\<lparr>exceeded_9_hours := True\<rparr>)
                else Inl Delay_reason_not_found)
      else (case delay_reason_id of
              Missing \<Rightarrow> Inr order
            | Malformed \<Rightarrow> Inl Processing_error
            | Parsed i \<Rightarrow>
                if delay_reason_exists reasons i
                then Inr (stamp_delay_reason uid now i order)
                else Inr order))"

definition save_comments :: "nat \<Rightarrow> time \<Rightarrow> string option \<Rightarrow> order \<Rightarrow> order" where
  "save_comments uid now comments_field order =
     (let comments = strip (or_default comments_field [])
      in if comments \<noteq> []
         then order\<lparr>overrun_reason := Some comments,
                    overrun_reported_at :=
                      Some (case overrun_reported_at order of Some t \<Rightarrow> t | None \<Rightarrow> now),
                    overrun_reported_by :=
                      Some (case overrun_reported_by order of Some w \<Rightarrow> w | None \<Rightarrow> uid)\<rparr>
         else order)"

text \<open>The result is the row to save, or the error with which the view redirects back.\<close>

definition complete_order ::
  "(time \<Rightarrow> bool) \<Rightarrow> nat list \<Rightarrow> nat \<Rightarrow> time \<Rightarrow> complete_form \<Rightarrow> order \<Rightarrow> detail_error + order" where
  "complete_order is_order_overdue reasons uid now f order =
     (case handle_delay_reason is_order_overdue reasons uid now (cf_delay_reason f) order of
        Inl e \<Rightarrow> Inl e
      | Inr o1 \<Rightarrow>
          Inr ((save_comments uid now (cf_comments f) o1)
                 \<lparr>order_status := Completed, completed_at := Some now\<rparr>))"

subsection \<open>The view\<close>

datatype action =
    View_page
  | Update_customer customer_form
  | Update_order_details details_form
  | Complete_order complete_form

datatype detail_response =
    Http404
  | Http500
  | Page order bool
  | Redirect_dashboard
  | Redirect_detail detail_error

text \<open>
  \<^verbatim>\<open>started_order_detail\<close>: the order is fetched by its id alone;
  \<^verbatim>\<open>branch_mismatch\<close> is computed and handed to the template. The
  \<^verbatim>\<open>update_vehicle\<close> action, which writes the vehicle's make, model and type only, is
  left out.
\<close>

definition branch_mismatch :: "ctx \<Rightarrow> order \<Rightarrow> bool" where
  "branch_mismatch u order =
     (user_branch u \<noteq> None \<and> order_branch order \<noteq> None \<and> order_branch order \<noteq> user_branch u)"

definition started_order_detail ::
  "(time \<Rightarrow> bool) \<Rightarrow> catalog \<Rightarrow> db \<Rightarrow> ctx \<Rightarrow> nat \<Rightarrow> action \<Rightarrow> time \<Rightarrow> detail_response \<times> db" where
  "started_order_detail is_order_overdue cat d u oid act now =
     (case get_order (orders d) oid of
        None \<Rightarrow> (Http404, d)
      | Some order \<Rightarrow>
          (case act of
             View_page \<Rightarrow> (Page order (branch_mismatch u order), d)
           | Update_customer f \<Rightarrow>
               (case get_customer (customers d) (order_customer order) of
                  None \<Rightarrow> (Http500, d)
                | Some c \<Rightarrow>
                    (Page order (branch_mismatch u order),
                     d\<lparr>customers := save_customer (update_customer f c) (customers d)\<rparr>))
           | Update_order_details f \<Rightarrow>
               (Redirect_dashboard,
                d\<lparr>orders := save_order (update_order_details cat f order) (orders d)\<rparr>)
           | Complete_order f \<Rightarrow>
               (case complete_order is_order_overdue (delay_reasons cat) (user_id u) now f order of
                  Inl e \<Rightarrow> (Redirect_detail e, d)
                | Inr o1 \<Rightarrow> (Redirect_dashboard, d\<lparr>orders := save_order o1 (orders d)\<rparr>))))"

section \<open>Starting an order\<close>

record start_request =
  sr_plate_number :: "string option"
  sr_order_type :: "string option"
  sr_use_existing_customer :: bool
  sr_existing_customer_id :: "nat option"
  sr_service_selection :: "string list"
  sr_estimated_duration :: "int option"
  sr_force_new_order :: bool

datatype start_error = Plate_required | Invalid_order_type

datatype start_response =
    Start_bad_request start_error
  | Start_server_error
  | Existing_order order string
  | Existing_customer customer vehicle
  | Order_started order string

definition normalize_plate :: "string option \<Rightarrow> string" where
  "normalize_plate p = upper (strip (or_default p []))"

definition valid_order_types :: "string list" where
  "valid_order_types = [''service'', ''sales'', ''inquiry'', ''labour'', ''unspecified'', ''mixed'']"

text \<open>An id of 0, like an absent one, is falsy.\<close>

definition given_id :: "nat option \<Rightarrow> nat option" where
  "given_id x = (case x of None \<Rightarrow> None | Some n \<Rightarrow> if n = 0 then None else Some n)"

text \<open>Vehicles joined with their customers (\<^verbatim>\<open>select_related('customer')\<close>).\<close>

definition vehicle_rows :: "db \<Rightarrow> (vehicle \<times> customer) list" where
  "vehicle_rows d =
     concat (map (\<lambda>v. case get_customer (customers d) (vehicle_customer v) of
                          None \<Rightarrow> [] | Some c \<Rightarrow> [(v, c)]) (vehicles d))"

definition find_vehicle_by_plate :: "db \<Rightarrow> nat option \<Rightarrow> string \<Rightarrow> (vehicle \<times> customer) option" where
  "find_vehicle_by_plate d ub plate =
     find (\<lambda>(v, c). iexact (plate_number v) plate \<and> customer_branch c = ub) (vehicle_rows d)"

text \<open>
  \<^verbatim>\<open>order_by(...).first()\<close>: the row no other row is later than; among equals the one
  with the smallest primary key.
\<close>

fun latest_by :: "('a \<Rightarrow> 'a \<Rightarrow> bool) \<Rightarrow> 'a list \<Rightarrow> 'a option" where
  "latest_by later [] = None"
| "latest_by later (x # xs) =
     (case latest_by later xs of
        None \<Rightarrow> Some x
      | Some y \<Rightarrow> if later y x then Some y else Some x)"

definition later_created :: "order \<Rightarrow> order \<Rightarrow> bool" where
  "later_created a b = (created_at a > created_at b)"

text \<open>Descending \<^verbatim>\<open>started_at\<close>, rows without one last.\<close>

definition later_started :: "order \<Rightarrow> order \<Rightarrow> bool" where
  "later_started a b =
     (case started_at a of
        None \<Rightarrow> False
      | Some s \<Rightarrow> (case started_at b of None \<Rightarrow> True | Some t \<Rightarrow> s > t))"

definition orders_of_vehicle :: "db \<Rightarrow> vehicle \<Rightarrow> status list \<Rightarrow> order list" where
  "orders_of_vehicle d v sts =
     filter (\<lambda>x. order_vehicle x = Some (vehicle_id v) \<and> order_status x \<in> set sts) (orders d)"

definition next_id :: "nat list \<Rightarrow> nat" where
  "next_id ids = Suc (fold max ids 0)"

text \<open>
  Modelled from the spec: \<^verbatim>\<open>CustomerService.create_or_get_customer\<close>
  (\<^verbatim>\<open>tracker/services.py\<close> is not among the sources). "Create a new Customer
  (synthesizing a name from the plate if none supplied)": the customer of that branch with
  that name and phone is reused, otherwise a row is created that carries the fields passed
  and no others. The view's own fallback for a failing service,
  \<^verbatim>\<open>Customer.objects.get_or_create\<close> on branch, name and phone, does the same.
\<close>

definition create_or_get_customer ::
  "db \<Rightarrow> nat option \<Rightarrow> string \<Rightarrow> string option \<Rightarrow> string \<Rightarrow> customer \<times> db" where
  "create_or_get_customer d ub name ph ctype =
     (case find (\<lambda>c. customer_branch c = ub \<and> full_name c = name \<and> phone c = ph) (customers d) of
        Some c \<Rightarrow> (c, d)
      | None \<Rightarrow>
          (let c = \<lparr>customer_id = next_id (map customer_id (customers d)), customer_branch = ub,
                    full_name = name, phone = ph, email = None, address = None,
                    customer_type = ctype, personal_subtype = None, organization_name = None,
                    tax_number = None, total_visits = 0, last_visit = None\<rparr>
           in (c, d\<lparr>customers := customers d @ [c]\<rparr>)))"

text \<open>
  Modelled from the spec: \<^verbatim>\<open>VehicleService.create_or_get_vehicle\<close>
  (\<^verbatim>\<open>tracker/services.py\<close>). "Upsert the Vehicle": the customer's vehicle with
  that plate is reused, otherwise it is created.
\<close>

definition create_or_get_vehicle :: "db \<Rightarrow> customer \<Rightarrow> string \<Rightarrow> vehicle \<times> db" where
  "create_or_get_vehicle d c plate =
     (case find (\<lambda>v. vehicle_customer v = customer_id c \<and> plate_number v = plate) (vehicles d) of
        Some v \<Rightarrow> (v, d)
      | None \<Rightarrow>
          (let v = \<lparr>vehicle_id = next_id (map vehicle_id (vehicles d)),
                    vehicle_customer = customer_id c, plate_number = plate,
                    vehicle_make = None, vehicle_model = None\<rparr>
           in (v, d\<lparr>vehicles := vehicles d @ [v]\<rparr>)))"

text \<open>
  Modelled from the spec: \<^verbatim>\<open>CustomerService.update_customer_visit\<close>
  (\<^verbatim>\<open>tracker/services.py\<close>): "total_visits += 1, last_visit = now".
\<close>

definition update_customer_visit :: "db \<Rightarrow> customer \<Rightarrow> time \<Rightarrow> db" where
  "update_customer_visit d c now =
     d\<lparr>customers := map (\<lambda>x. if customer_id x = customer_id c
                               then x\<lparr>total_visits := Suc (total_visits x), last_visit := Some now\<rparr>
                               else x) (customers d)\<rparr>"

text \<open>
  Modelled from the spec: \<^verbatim>\<open>OrderService.create_order\<close> (\<^verbatim>\<open>tracker/services.py\<close>):
  "create a new Order in state created", touching the customer's visit counters once.
\<close>

definition create_order ::
  "db \<Rightarrow> customer \<Rightarrow> string \<Rightarrow> nat option \<Rightarrow> vehicle option \<Rightarrow> string \<Rightarrow> int option \<Rightarrow> time
     \<Rightarrow> order \<times> db" where
  "create_order d c otype ub v desc est now =
     (let new = \<lparr>order_id = next_id (map order_id (orders d)), order_branch = ub,
                  order_customer = customer_id c, order_vehicle = map_option vehicle_id v,
                  order_type = otype, order_status = Created, priority = ''medium'',
                  description = desc, item_name = None, brand = None, quantity = None,
                  tire_type = None, estimated_duration = est, actual_duration = None,
                  created_at = now, started_at = None, completed_at = None,
                  cancelled_at = None, completion_date = None, delay_reason = None,
                  delay_reason_reported_at = None,
                  delay_reason_reported_by = None, exceeded_9_hours = False,
                  overrun_reason = None, overrun_reported_at = None,
                  overrun_reported_by = None\<rparr>
      in (new, (update_customer_visit d c now)\<lparr>orders := orders d @ [new]\<rparr>))"

definition minutes_of :: "service_entry \<Rightarrow> int" where
  "minutes_of e = (case svc_estimated_minutes e of None \<Rightarrow> 0 | Some m \<Rightarrow> m)"

definition selected_minutes :: "catalog \<Rightarrow> string list \<Rightarrow> int" where
  "selected_minutes cat sel =
     sum_list (map minutes_of (filter (\<lambda>e. svc_name e \<in> set sel \<and> svc_is_active e) (service_types cat)))
     + sum_list (map minutes_of (filter (\<lambda>e. svc_name e \<in> set sel) (service_addons cat)))"

definition start_estimate :: "catalog \<Rightarrow> string \<Rightarrow> start_request \<Rightarrow> int option" where
  "start_estimate cat otype req =
     (let est = (if sr_service_selection req \<noteq> [] \<and> otype = ''service''
                   \<and> selected_minutes cat (sr_service_selection req) \<noteq> 0
                 then Some (selected_minutes cat (sr_service_selection req))
                 else sr_estimated_duration req)
      in if truthy_int est then est else None)"

definition start_description :: "string \<Rightarrow> string list \<Rightarrow> string" where
  "start_description plate sel =
     ''Order started'' @ (if plate \<noteq> [] then '' for '' @ plate else [])
       @ (if sel \<noteq> [] then '': '' @ join '', '' sel else [])"

definition reusable_order :: "db \<Rightarrow> vehicle option \<Rightarrow> order option" where
  "reusable_order d vopt =
     (case vopt of
        None \<Rightarrow> None
      | Some v \<Rightarrow>
          (case latest_by later_created (orders_of_vehicle d v [Created]) of
             Some x \<Rightarrow> Some x
           | None \<Rightarrow> latest_by later_started (orders_of_vehicle d v [In_progress, Overdue])))"

text \<open>
  The part of \<^verbatim>\<open>api_start_order\<close> after the lookups: customer, vehicle, reuse or
  creation. It is reached without a customer only with a non-empty plate (an empty plate with
  no customer id was answered before), so the name is always the one made from the plate.
\<close>

definition place_order ::
  "catalog \<Rightarrow> db \<Rightarrow> nat option \<Rightarrow> customer option \<Rightarrow> string \<Rightarrow> string \<Rightarrow> start_request \<Rightarrow> time
     \<Rightarrow> start_response \<times> db" where
  "place_order cat d ub customer plate otype req now =
     (let (c, d1) = (case customer of
                       Some c \<Rightarrow> (c, d)
                     | None \<Rightarrow> create_or_get_customer d ub (''Plate '' @ plate)
                                 (Some (''PLATE_'' @ plate)) ''personal'');
          (vopt, d2) = (if plate \<noteq> []
                        then (case create_or_get_vehicle d1 c plate of (v, d') \<Rightarrow> (Some v, d'))
                        else (None, d1));
          reuse = (if sr_force_new_order req then None else reusable_order d2 vopt)
      in case reuse of
           Some x \<Rightarrow> (Order_started x plate, update_customer_visit d2 c now)
         | None \<Rightarrow>
             (case create_order d2 c otype ub vopt
                     (start_description plate (sr_service_selection req))
                     (start_estimate cat otype req) now of
                (new, d3) \<Rightarrow> (Order_started new plate, d3)))"

definition find_customer_for :: "db \<Rightarrow> nat option \<Rightarrow> nat \<Rightarrow> customer option" where
  "find_customer_for d ub i =
     (if ub \<noteq> None then find (\<lambda>c. customer_id c = i \<and> customer_branch c = ub) (customers d)
      else get_customer (customers d) i)"

text \<open>
  \<^verbatim>\<open>api_start_order\<close>. \<open>ub\<close> is the caller's branch. A customer id that is not
  found raises \<^verbatim>\<open>Http404\<close> inside the \<^verbatim>\<open>try\<close> and is answered as a server error.
\<close>

definition api_start_order ::
  "catalog \<Rightarrow> db \<Rightarrow> nat option \<Rightarrow> start_request \<Rightarrow> time \<Rightarrow> start_response \<times> db" where
  "api_start_order cat d ub req now =
     (let plate_number = normalize_plate (sr_plate_number req);
          order_type = (case sr_order_type req of None \<Rightarrow> ''service'' | Some t \<Rightarrow> t);
          existing_customer_id = given_id (sr_existing_customer_id req)
      in if plate_number = [] \<and> \<not> (sr_use_existing_customer req \<and> existing_customer_id \<noteq> None)
         then (Start_bad_request Plate_required, d)
         else if order_type \<notin> set valid_order_types
         then (Start_bad_request Invalid_order_type, d)
         else (case existing_customer_id of
                 Some i \<Rightarrow>
                   (case find_customer_for d ub i of
                      None \<Rightarrow> (Start_server_error, d)
                    | Some c \<Rightarrow>
                        place_order cat d (if ub = None then customer_branch c else ub) (Some c)
                          plate_number order_type req now)
               | None \<Rightarrow>
                   (if plate_number \<noteq> [] \<and> \<not> sr_force_new_order req
                    then (case find_vehicle_by_plate d ub plate_number of
                            Some (v, c) \<Rightarrow>
                              (case latest_by later_created
                                      (orders_of_vehicle d v [Created, In_progress]) of
                                 Some x \<Rightarrow> (Existing_order x plate_number, d)
                               | None \<Rightarrow> (Existing_customer c v, d))
                          | None \<Rightarrow> place_order cat d ub None plate_number order_type req now)
                    else place_order cat d ub None plate_number order_type req now)))"

section \<open>Checking a plate\<close>

datatype check_response = Plate_not_found | Plate_found customer vehicle

text \<open>\<^verbatim>\<open>api_check_plate\<close>.\<close>

definition api_check_plate :: "db \<Rightarrow> nat option \<Rightarrow> string option \<Rightarrow> check_response" where
  "api_check_plate d ub plate_field =
     (let plate_number = normalize_plate plate_field
      in if plate_number = [] then Plate_not_found
         else case find_vehicle_by_plate d ub plate_number of
           None \<Rightarrow> Plate_not_found
         | Some (v, c) \<Rightarrow> Plate_found c v)"

section \<open>Customer fields\<close>

text \<open>The invariant of the data model on a customer row.\<close>

definition customer_invariant :: "customer \<Rightarrow> bool" where
  "customer_invariant c =
     (if customer_type c \<in> {''company'', ''government'', ''ngo''}
      then truthy (organization_name c) \<and> truthy (tax_number c)
      else if customer_type c = ''personal'' then truthy (personal_subtype c)
      else True)"

text \<open>
  The checks \<^verbatim>\<open>api_create_order_from_modal\<close> and
  \<^verbatim>\<open>api_update_order_from_extraction\<close> make on the customer fields of the form before
  anything is written. The fields are the stripped strings.
\<close>

record customer_fields =
  fld_name :: string
  fld_phone :: string
  fld_type :: string
  fld_subtype :: string
  fld_organization :: string
  fld_tax :: string

datatype field_error =
    Name_and_phone_required
  | Invalid_customer_type
  | Personal_subtype_required
  | Organization_and_tax_required

definition validate_customer_fields :: "customer_fields \<Rightarrow> field_error option" where
  "validate_customer_fields f =
     (if fld_name f = [] \<or> fld_phone f = [] then Some Name_and_phone_required
      else if fld_type f \<notin> {''personal'', ''company'', ''government'', ''ngo''}
      then Some Invalid_customer_type
      else if fld_type f = ''personal'' \<and> fld_subtype f = [] then Some Personal_subtype_required
      else if fld_type f \<in> {''company'', ''government'', ''ngo''}
              \<and> (fld_organization f = [] \<or> fld_tax f = [])
      then Some Organization_and_tax_required
      else None)"

section \<open>Integrity of the tables\<close>

text \<open>
  What the database guarantees of the rows: customer ids are unique, every vehicle belongs
  to a customer that exists, and every order's vehicle exists.
\<close>

definition wf_db :: "db \<Rightarrow> bool" where
  "wf_db d =
     (distinct (map customer_id (customers d)) \<and>
      list_all (\<lambda>v. vehicle_customer v \<in> set (map customer_id (customers d))) (vehicles d) \<and>
      list_all (\<lambda>x. case order_vehicle x of
                       None \<Rightarrow> True
                     | Some i \<Rightarrow> i \<in> set (map vehicle_id (vehicles d))) (orders d))"

section \<open>Example data\<close>

definition blank_order :: order where
  "blank_order =
     \<lparr>order_id = 1, order_branch = Some 3, order_customer = 1, order_vehicle = Some 1,
      order_type = ''service'', order_status = Created, priority = ''medium'',
      description = ''Order started'', item_name = None, brand = None, quantity = None,
      tire_type = None, estimated_duration = None, actual_duration = None, created_at = 0,
      started_at = None, completed_at = None, cancelled_at = None,
      completion_date = None, delay_reason = None,
      delay_reason_reported_at = None, delay_reason_reported_by = None,
      exceeded_9_hours = False, overrun_reason = None, overrun_reported_at = None,
      overrun_reported_by = None\<rparr>"

definition orders_db :: "order list \<Rightarrow> db" where
  "orders_db os = \<lparr>customers = [], vehicles = [], orders = os\<rparr>"

definition clerk :: "nat option \<Rightarrow> ctx" where
  "clerk b = \<lparr>user_id = 9, is_superuser = False, is_staff = False, user_branch = b\<rparr>"

definition main_branch :: branch where
  "main_branch = \<lparr>branch_id = 1, branch_parent = None\<rparr>"

definition sub_branch_a :: branch where
  "sub_branch_a = \<lparr>branch_id = 2, branch_parent = Some 1\<rparr>"

definition sub_branch_b :: branch where
  "sub_branch_b = \<lparr>branch_id = 3, branch_parent = Some 1\<rparr>"

text \<open>
  The instance of \<open>is_order_overdue\<close> used in the examples: started more than two hours
  (7200 seconds) before \<open>now\<close>.
\<close>

definition overdue_at :: "time \<Rightarrow> time \<Rightarrow> bool" where
  "overdue_at now s = (7200 < now - s)"

definition no_catalog :: catalog where
  "no_catalog = \<lparr>labour_codes = [], inventory_items = [], delay_reasons = [4],
                  service_types = [], service_addons = []\<rparr>"

definition parts_catalog :: catalog where
  "parts_catalog =
     \<lparr>labour_codes =
        [\<lparr>lc_id = 5, lc_code = ''L005'', lc_description = ''Brake service'',
          lc_item_name = Some ''Brake pad'', lc_brand = Some ''Bosch'', lc_quantity = Some 2,
          lc_tire_type = None, lc_is_active = True\<rparr>],
      inventory_items = [\<lparr>inv_id = 3, inv_name = ''Tyre'', inv_brand = Some ''Michelin''\<rparr>],
      delay_reasons = [4], service_types = [], service_addons = []\<rparr>"

definition both_candidates :: details_form where
  "both_candidates =
     \<lparr>df_services = [], df_labour_codes = [], df_estimated_duration = Missing,
      df_item_id = Parsed 3, df_item_quantity = Missing, df_order_type = None,
      df_labour_code_id = Parsed 5, df_item_name_manual = None, df_item_brand_manual = None\<rparr>"

section \<open>The resolution engine as the specification words it\<close>

text \<open>
  The three candidates of the specification's \<open>resolveItem\<close>, each the item name and brand
  it would give, and the first that is present and valid.
\<close>

definition labour_candidate :: "catalog \<Rightarrow> details_form \<Rightarrow> (string option \<times> string option) option" where
  "labour_candidate cat f =
     (case df_labour_code_id f of
        Parsed i \<Rightarrow>
          (case find_labour_code (labour_codes cat) i of
             None \<Rightarrow> None
           | Some lc \<Rightarrow>
               if truthy (lc_item_name lc)
               then Some (lc_item_name lc, Some (or_default (lc_brand lc) ''Unbranded''))
               else None)
      | _ \<Rightarrow> None)"

definition manual_candidate :: "details_form \<Rightarrow> (string option \<times> string option) option" where
  "manual_candidate f =
     (if truthy (df_item_name_manual f)
      then Some (df_item_name_manual f, Some (or_default (df_item_brand_manual f) ''Unbranded''))
      else None)"

definition inventory_candidate :: "catalog \<Rightarrow> details_form \<Rightarrow> (string option \<times> string option) option" where
  "inventory_candidate cat f =
     (case df_item_id f of
        Parsed i \<Rightarrow>
          (case find_inventory_item (inventory_items cat) i of
             None \<Rightarrow> None
           | Some item \<Rightarrow>
               Some (Some (inv_name item),
                     Some (case inv_brand item of None \<Rightarrow> ''Unbranded'' | Some b \<Rightarrow> b)))
      | _ \<Rightarrow> None)"

definition resolve_item_spec :: "catalog \<Rightarrow> details_form \<Rightarrow> (string option \<times> string option) option" where
  "resolve_item_spec cat f =
     (case labour_candidate cat f of
        Some r \<Rightarrow> Some r
      | None \<Rightarrow> (case manual_candidate f of
                   Some r \<Rightarrow> Some r
                 | None \<Rightarrow> inventory_candidate cat f))"

definition empty_db :: db where
  "empty_db = \<lparr>customers = [], vehicles = [], orders = []\<rparr>"

definition plate_request :: "string \<Rightarrow> start_request" where
  "plate_request p =
     \<lparr>sr_plate_number = Some p, sr_order_type = None, sr_use_existing_customer = False,
      sr_existing_customer_id = None, sr_service_selection = [], sr_estimated_duration = None,
      sr_force_new_order = False\<rparr>"

definition regular_customer :: customer where
  "regular_customer =
     \<lparr>customer_id = 1, customer_branch = Some 3, full_name = ''Asha'', phone = Some ''0712'',
      email = None, address = None, customer_type = ''personal'',
      personal_subtype = Some ''owner'', organization_name = None, tax_number = None,
      total_visits = 1, last_visit = None\<rparr>"

definition regular_car :: vehicle where
  "regular_car =
     \<lparr>vehicle_id = 1, vehicle_customer = 1, plate_number = ''KAA 123X'',
      vehicle_make = None, vehicle_model = None\<rparr>"

definition one_car_db :: db where
  "one_car_db = \<lparr>customers = [regular_customer], vehicles = [regular_car], orders = [blank_order]\<rparr>"

definition started_order :: order where
  "started_order =
     \<lparr>order_id = 1, order_branch = Some 3, order_customer = 1, order_vehicle = Some 1,
      order_type = ''service'', order_status = Created, priority = ''medium'',
      description = ''Order started for KAA 123X'', item_name = None, brand = None,
      quantity = None, tire_type = None, estimated_duration = None, actual_duration = None,
      created_at = 50, started_at = None, completed_at = None, cancelled_at = None,
      completion_date = None,
      delay_reason = None, delay_reason_reported_at = None, delay_reason_reported_by = None,
      exceeded_9_hours = False, overrun_reason = None, overrun_reported_at = None,
      overrun_reported_by = None\<rparr>"

definition plate_customer :: customer where
  "plate_customer =
     \<lparr>customer_id = 1, customer_branch = Some 3, full_name = ''Plate KAA 123X'',
      phone = Some ''PLATE_KAA 123X'', email = None, address = None,
      customer_type = ''personal'', personal_subtype = None, organization_name = None,
      tax_number = None, total_visits = 1, last_visit = Some 50\<rparr>"

definition started_db :: db where
  "started_db =
     \<lparr>customers = [plate_customer],
      vehicles = [\<lparr>vehicle_id = 1, vehicle_customer = 1, plate_number = ''KAA 123X'',
                   vehicle_make = None, vehicle_model = None\<rparr>],
      orders = [started_order]\<rparr>"

section \<open>Properties\<close>

lemmas ex_defs = blank_order_def orders_db_def clerk_def main_branch_def sub_branch_a_def
  sub_branch_b_def no_catalog_def

lemmas view_defs = api_quick_stop_order_def scoped_order_def get_order_in_branch_def get_order_def
  save_order_def quick_stop_def is_admin_def started_order_detail_def complete_order_def
  handle_delay_reason_def exceeds_9_hours_def save_comments_def or_default_def strip_def
  api_record_overrun_reason_def record_overrun_def branch_mismatch_def
  delay_reason_exists_def stamp_delay_reason_def

subsection \<open>Branch scope\<close>

text \<open>
  Claim C1. A principal of sub-branch 2, neither staff nor superuser, whose visible branches
  are branch 2 alone, opens and completes through the started-order detail view an order of
  the sibling sub-branch 3: the view fetches the order by id and only reports the mismatch
  to the template. The quick-stop endpoint refuses the same principal on the same order.
\<close>

theorem started_order_detail_ignores_branch:
  "map branch_id (get_queryset \<lparr>au_is_superuser = False, au_branch = Some sub_branch_a\<rparr>
      [main_branch, sub_branch_a, sub_branch_b]) = [2] \<and>
   started_order_detail (overdue_at 60) no_catalog (orders_db [blank_order]) (clerk (Some 2)) 1
       View_page 60 = (Page blank_order True, orders_db [blank_order]) \<and>
   started_order_detail (overdue_at 60) no_catalog (orders_db [blank_order]) (clerk (Some 2)) 1
       (Complete_order \<lparr>cf_delay_reason = Missing, cf_comments = None\<rparr>) 60 =
     (Redirect_dashboard,
      orders_db [blank_order\<lparr>order_status := Completed, completed_at := Some 60\<rparr>]) \<and>
   api_quick_stop_order (orders_db [blank_order]) (clerk (Some 2)) (Parsed 1) 60 =
     (Server_error, orders_db [blank_order])"
  by (simp add: view_defs ex_defs get_queryset_def)

subsection \<open>Delay reason on completion\<close>

text \<open>
  Claim C2, as stated, fails on an order that was never started: created at time 0 and
  completed three hours later without a delay reason, it is completed.
\<close>

theorem complete_order_unstarted_counterexample:
  "started_order_detail (overdue_at 10800) no_catalog (orders_db [blank_order]) (clerk (Some 3)) 1
       (Complete_order \<lparr>cf_delay_reason = Missing, cf_comments = None\<rparr>) 10800 =
     (Redirect_dashboard,
      orders_db [blank_order\<lparr>order_status := Completed, completed_at := Some 10800\<rparr>])"
  by (simp add: view_defs ex_defs)

text \<open>
  Claim C2, amended. For an order that has been started, is in progress and is reported
  overdue by \<open>is_order_overdue\<close>, completing without a delay reason answers
  \<open>Delay_reason_required\<close> and leaves every row as it was; with an existing delay reason the
  order is completed and the reason, the time and the reporter are stamped. An order with no
  \<open>started_at\<close> is completed without being asked for a delay reason.
\<close>

theorem complete_order_delay_reason:
  "(get_order (orders d) oid = Some order \<and> started_at order = Some s \<and>
      order_status order = In_progress \<and> is_order_overdue s \<longrightarrow>
      started_order_detail is_order_overdue cat d u oid
          (Complete_order \<lparr>cf_delay_reason = Missing, cf_comments = c\<rparr>) now =
        (Redirect_detail Delay_reason_required, d) \<and>
      (delay_reason_exists (delay_reasons cat) i \<longrightarrow>
         started_order_detail is_order_overdue cat d u oid
             (Complete_order \<lparr>cf_delay_reason = Parsed i, cf_comments = c\<rparr>) now =
           (Redirect_dashboard,
            d\<lparr>orders := save_order
                 ((save_comments (user_id u) now c
                     (order\<lparr>delay_reason := Some (nat i), delay_reason_reported_at := Some now,
                            delay_reason_reported_by := Some (user_id u),
                            exceeded_9_hours := True\<rparr>))
                    \<lparr>order_status := Completed, completed_at := Some now\<rparr>) (orders d)\<rparr>))) \<and>
   (get_order (orders d) oid = Some order \<and> started_at order = None \<longrightarrow>
      started_order_detail is_order_overdue cat d u oid
          (Complete_order \<lparr>cf_delay_reason = Missing, cf_comments = c\<rparr>) now =
        (Redirect_dashboard,
         d\<lparr>orders := save_order
              ((save_comments (user_id u) now c order)
                 \<lparr>order_status := Completed, completed_at := Some now\<rparr>) (orders d)\<rparr>))"
  by (simp add: started_order_detail_def complete_order_def handle_delay_reason_def
      exceeds_9_hours_def stamp_delay_reason_def)

text \<open>
  Outside the amended claim: for an order that is not in progress the action compares the
  measured duration with nine hours, so an overdue order measured at 200 minutes is
  completed without a delay reason.
\<close>

lemma complete_order_nine_hours:
  "started_order_detail (overdue_at 14400) no_catalog
       (orders_db [blank_order\<lparr>order_status := Overdue, started_at := Some 0,
          actual_duration := Some 200\<rparr>])
       (clerk (Some 3)) 1 (Complete_order \<lparr>cf_delay_reason = Missing, cf_comments = None\<rparr>) 14400 =
     (Redirect_dashboard,
      orders_db [blank_order\<lparr>order_status := Completed, started_at := Some 0,
        actual_duration := Some 200, completed_at := Some 14400\<rparr>])"
  by (simp add: view_defs ex_defs)

theorem complete_order_delay_reason_witness:
  "started_order_detail (overdue_at 10800) no_catalog
       (orders_db [blank_order\<lparr>order_status := In_progress, started_at := Some 0\<rparr>])
       (clerk (Some 3)) 1 (Complete_order \<lparr>cf_delay_reason = Missing, cf_comments = None\<rparr>) 10800 =
     (Redirect_detail Delay_reason_required,
      orders_db [blank_order\<lparr>order_status := In_progress, started_at := Some 0\<rparr>]) \<and>
   started_order_detail (overdue_at 10800) no_catalog
       (orders_db [blank_order\<lparr>order_status := In_progress, started_at := Some 0\<rparr>])
       (clerk (Some 3)) 1 (Complete_order \<lparr>cf_delay_reason = Parsed 4, cf_comments = None\<rparr>) 10800 =
     (Redirect_dashboard,
      orders_db [blank_order\<lparr>order_status := Completed, started_at := Some 0,
        completed_at := Some 10800, delay_reason := Some 4,
        delay_reason_reported_at := Some 10800, delay_reason_reported_by := Some 9,
        exceeded_9_hours := True\<rparr>]) \<and>
   started_order_detail (overdue_at 10800) no_catalog (orders_db [blank_order])
       (clerk (Some 3)) 1 (Complete_order \<lparr>cf_delay_reason = Missing, cf_comments = None\<rparr>) 10800 =
     (Redirect_dashboard,
      orders_db [blank_order\<lparr>order_status := Completed, completed_at := Some 10800\<rparr>])"
proof -
  let ?o = "blank_order\<lparr>order_status := In_progress, started_at := Some 0\<rparr>"
  let ?d = "orders_db [?o]"
  have h1: "get_order (orders ?d) 1 = Some ?o \<and> started_at ?o = Some 0 \<and>
      order_status ?o = In_progress \<and> overdue_at 10800 0"
    by (simp add: get_order_def ex_defs overdue_at_def)
  have h2: "delay_reason_exists (delay_reasons no_catalog) 4"
    by (simp add: delay_reason_exists_def ex_defs)
  have h3: "get_order (orders (orders_db [blank_order])) 1 = Some blank_order \<and>
      started_at blank_order = None"
    by (simp add: get_order_def ex_defs)
  note a = complete_order_delay_reason
    [of ?d 1 ?o 0 "overdue_at 10800" no_catalog "clerk (Some 3)" None 10800 4]
  note b = complete_order_delay_reason
    [of "orders_db [blank_order]" 1 blank_order 0 "overdue_at 10800" no_catalog
      "clerk (Some 3)" None 10800 4]
  show ?thesis
    using a b h1 h2 h3
    by (simp add: save_comments_def or_default_def strip_def save_order_def ex_defs)
qed

subsection \<open>Terminal states\<close>

text \<open>
  Claim C3. The admin table offers no transition out of \<open>Cancelled\<close>, yet quick-stop on a
  cancelled order answers success and stores it as completed, with \<open>started_at\<close>,
  \<open>completed_at\<close> and \<open>actual_duration\<close> rewritten.
\<close>

theorem quick_stop_leaves_cancelled:
  "Completed \<notin> set (transitions Cancelled) \<and>
   api_quick_stop_order (orders_db [blank_order\<lparr>order_status := Cancelled\<rparr>]) (clerk (Some 3))
       (Parsed 1) 600 =
     (Success 1, orders_db [blank_order\<lparr>order_status := Completed, actual_duration := Some 0,
        started_at := Some 600, completed_at := Some 600, completion_date := Some 600\<rparr>])"
  by (simp add: view_defs ex_defs)

text \<open>
  Claim C4. An order started at time 0 is quick-stopped at 600 and again at 1200: both calls
  answer success, and the second rewrites \<open>completed_at\<close> and \<open>actual_duration\<close>. The
  complete action on the completed order rewrites \<open>completed_at\<close> as well. Saving the
  completed order again through the admin leaves it as it is.
\<close>

theorem repeated_completion_rewrites:
  "api_quick_stop_order (orders_db [blank_order\<lparr>started_at := Some 0\<rparr>]) (clerk (Some 3))
       (Parsed 1) 600 =
     (Success 1, orders_db [blank_order\<lparr>order_status := Completed, actual_duration := Some 10,
        started_at := Some 0, completed_at := Some 600, completion_date := Some 600\<rparr>]) \<and>
   api_quick_stop_order (orders_db [blank_order\<lparr>order_status := Completed,
        actual_duration := Some 10, started_at := Some 0, completed_at := Some 600,
        completion_date := Some 600\<rparr>]) (clerk (Some 3)) (Parsed 1) 1200 =
     (Success 1, orders_db [blank_order\<lparr>order_status := Completed, actual_duration := Some 20,
        started_at := Some 0, completed_at := Some 1200, completion_date := Some 1200\<rparr>]) \<and>
   started_order_detail (overdue_at 1200) no_catalog
       (orders_db [blank_order\<lparr>order_status := Completed, actual_duration := Some 10,
          started_at := Some 0, completed_at := Some 600, completion_date := Some 600\<rparr>])
       (clerk (Some 3)) 1 (Complete_order \<lparr>cf_delay_reason = Missing, cf_comments = None\<rparr>) 1200 =
     (Redirect_dashboard, orders_db [blank_order\<lparr>order_status := Completed,
        actual_duration := Some 10, started_at := Some 0, completed_at := Some 1200,
        completion_date := Some 600\<rparr>]) \<and>
   save_model 1200
       (blank_order\<lparr>order_status := Completed, actual_duration := Some 10,
          started_at := Some 0, completed_at := Some 600, completion_date := Some 600\<rparr>)
       (blank_order\<lparr>order_status := Completed, actual_duration := Some 10,
          started_at := Some 0, completed_at := Some 600, completion_date := Some 600\<rparr>) =
     blank_order\<lparr>order_status := Completed, actual_duration := Some 10,
        started_at := Some 0, completed_at := Some 600, completion_date := Some 600\<rparr>"
  by (simp add: view_defs ex_defs save_model_def)

subsection \<open>Quick stop\<close>

lemma quick_stop_duration:
  "actual_duration (quick_stop now order) =
     Some (case started_at order of None \<Rightarrow> 0 | Some s \<Rightarrow> (now - s) div 60)"
  by (simp add: quick_stop_def Let_def split: option.splits)

lemma quick_stop_status:
  "order_status (quick_stop now order) = Completed \<and>
   completed_at (quick_stop now order) = Some now"
  by (simp add: quick_stop_def Let_def)

text \<open>
  Claim C6. An order created at time 0 and never started is quick-stopped three hours later:
  \<open>started_at\<close> is first set to the completion time, so the duration stored is 0 minutes and
  not the 180 minutes since \<open>created_at\<close>.
\<close>

theorem quick_stop_unstarted_duration:
  "api_quick_stop_order (orders_db [blank_order]) (clerk (Some 3)) (Parsed 1) 10800 =
     (Success 1, orders_db [blank_order\<lparr>order_status := Completed, actual_duration := Some 0,
        started_at := Some 10800, completed_at := Some 10800, completion_date := Some 10800\<rparr>])"
  by (simp add: view_defs ex_defs)

subsection \<open>Overrun reports\<close>

lemma save_comments_sticky:
  "overrun_reported_at (save_comments uid now c (order\<lparr>overrun_reported_at := Some t\<rparr>)) = Some t"
  "overrun_reported_by (save_comments uid now c (order\<lparr>overrun_reported_by := Some w\<rparr>)) = Some w"
  by (simp_all add: save_comments_def Let_def)

text \<open>
  Claim C7. An overrun reported at time 100 by user 7 is reported again at time 200 by user 9
  through \<^verbatim>\<open>api_record_overrun_reason\<close>: the time and the reporter are overwritten. The
  completion comments keep them, as \<open>save_comments_sticky\<close> shows.
\<close>

theorem record_overrun_overwrites:
  "api_record_overrun_reason
       (orders_db [blank_order\<lparr>overrun_reason := Some ''parts late'',
          overrun_reported_at := Some 100, overrun_reported_by := Some 7\<rparr>])
       (clerk (Some 3)) 1 (Some ''customer late'') 200 =
     (Success 1, orders_db [blank_order\<lparr>overrun_reason := Some ''customer late'',
          overrun_reported_at := Some 200, overrun_reported_by := Some 9\<rparr>])"
  by (simp add: view_defs ex_defs is_space_def)

subsection \<open>Item resolution\<close>

lemma store_keep_item:
  "item_name (store_estimate f order) = item_name order"
  "brand (store_estimate f order) = brand order"
  "item_name (store_services f order) = item_name order"
  "brand (store_services f order) = brand order"
  "item_name (store_labour_codes cat f order) = item_name order"
  "brand (store_labour_codes cat f order) = brand order"
  by (simp_all add: store_estimate_def store_services_def store_labour_codes_def Let_def
      split: int_field.splits)

lemma set_quantity_keep_item:
  "item_name (set_quantity q order) = item_name order"
  "brand (set_quantity q order) = brand order"
  by (simp_all add: set_quantity_def split: int_field.splits)

lemma or_default_or_none: "or_default (or_none s) d = or_default s d"
  by (simp add: or_default_def or_none_def truthy_def split: option.splits)

lemma truthy_or_none: "truthy (or_none s) = truthy s"
  by (simp add: or_none_def truthy_def)

lemma or_none_truthy: "truthy s \<Longrightarrow> or_none s = s"
  by (simp add: or_none_def)

lemma find_labour_code_active:
  "find_labour_code lcs i = Some lc \<Longrightarrow> lc_is_active lc \<and> int (lc_id lc) = i"
  by (auto simp add: find_labour_code_def find_Some_iff)

lemma use_labour_code_item:
  "use_labour_code (labour_codes cat) (df_labour_code_id f) order = (o1, b) \<Longrightarrow>
   b = (labour_candidate cat f \<noteq> None) \<and>
   (item_name o1, brand o1) =
     (case labour_candidate cat f of Some p \<Rightarrow> p | None \<Rightarrow> (item_name order, brand order))"
  by (auto simp add: use_labour_code_def labour_candidate_def Let_def
      split: int_field.splits option.splits if_splits)

lemma use_manual_item_item:
  "use_manual_item (or_none (df_item_name_manual f)) (or_none (df_item_brand_manual f)) q (o1, b)
     = (o2, b2) \<Longrightarrow>
   b2 = (b \<or> manual_candidate f \<noteq> None) \<and>
   (item_name o2, brand o2) =
     (if b then (item_name o1, brand o1)
      else case manual_candidate f of Some p \<Rightarrow> p | None \<Rightarrow> (item_name o1, brand o1))"
  by (auto simp add: use_manual_item_def manual_candidate_def set_quantity_keep_item
      truthy_or_none or_default_or_none or_none_truthy split: if_splits)

lemma use_inventory_item_item:
  "use_inventory_item (inventory_items cat) (df_item_id f) q (o2, b2) = (o3, b3) \<Longrightarrow>
   (item_name o3, brand o3) =
     (if b2 then (item_name o2, brand o2)
      else case inventory_candidate cat f of Some p \<Rightarrow> p | None \<Rightarrow> (item_name o2, brand o2))"
  by (auto simp add: use_inventory_item_def inventory_candidate_def set_quantity_keep_item
      split: if_splits int_field.splits option.splits)

lemma update_item_resolves:
  assumes "order_type order \<in> {''sales'', ''service'', ''labour''}"
  shows "(item_name (update_item cat f order), brand (update_item cat f order)) =
     (case resolve_item_spec cat f of Some p \<Rightarrow> p | None \<Rightarrow> (item_name order, brand order))"
proof -
  obtain o1 b1 where s1:
    "use_labour_code (labour_codes cat) (df_labour_code_id f) order = (o1, b1)"
    by (cases "use_labour_code (labour_codes cat) (df_labour_code_id f) order")
  obtain o2 b2 where s2:
    "use_manual_item (or_none (df_item_name_manual f)) (or_none (df_item_brand_manual f))
       (df_item_quantity f) (o1, b1) = (o2, b2)"
    by (cases "use_manual_item (or_none (df_item_name_manual f))
       (or_none (df_item_brand_manual f)) (df_item_quantity f) (o1, b1)")
  obtain o3 b3 where s3:
    "use_inventory_item (inventory_items cat) (df_item_id f) (df_item_quantity f) (o2, b2)
       = (o3, b3)"
    by (cases "use_inventory_item (inventory_items cat) (df_item_id f) (df_item_quantity f)
       (o2, b2)")
  have u: "update_item cat f order = o3"
    using assms s1 s2 s3 by (simp add: update_item_def)
  note f1 = use_labour_code_item [OF s1]
  note f2 = use_manual_item_item [OF s2]
  note f3 = use_inventory_item_item [OF s3]
  show ?thesis
    unfolding u using f1 f2 f3
    by (cases "labour_candidate cat f"; cases "manual_candidate f";
        cases "inventory_candidate cat f")
       (simp_all add: resolve_item_spec_def)
qed

lemma update_item_gate:
  "order_type order \<notin> {''sales'', ''service'', ''labour''} \<Longrightarrow> update_item cat f order = order"
  by (simp add: update_item_def)

lemmas item_defs = update_order_details_def change_order_type_def update_item_def
  use_labour_code_def use_manual_item_def use_inventory_item_def find_labour_code_def
  find_inventory_item_def set_quantity_def store_labour_codes_def store_services_def
  store_estimate_def truthy_def truthy_int_def or_none_def or_default_def
  parts_catalog_def both_candidates_def blank_order_def

lemmas candidate_defs = resolve_item_spec_def labour_candidate_def manual_candidate_def
  inventory_candidate_def

text \<open>
  Claim C8, as stated, fails on an order of type \<open>inquiry\<close>: the update carries an active
  labour code with an item name and an inventory item that exists, and the order keeps its
  empty item and brand.
\<close>

theorem item_resolution_inquiry_counterexample:
  "labour_candidate parts_catalog both_candidates = Some (Some ''Brake pad'', Some ''Bosch'') \<and>
   inventory_candidate parts_catalog both_candidates = Some (Some ''Tyre'', Some ''Michelin'') \<and>
   item_name (update_order_details parts_catalog both_candidates
                (blank_order\<lparr>order_type := ''inquiry''\<rparr>)) = None \<and>
   brand (update_order_details parts_catalog both_candidates
            (blank_order\<lparr>order_type := ''inquiry''\<rparr>)) = None"
  by (simp add: item_defs candidate_defs)

text \<open>
  Claim C8, amended. When the order's type, after the type change the same update may carry,
  is \<open>sales\<close>, \<open>service\<close> or \<open>labour\<close>, the item name and brand the update stores are those
  of the first candidate that resolves, in the order labour code, manual entry, inventory
  item, and the order's own when none resolves; a labour code that is unknown, inactive or
  without item name does not resolve and raises nothing. For every other order type no
  candidate is looked at and the item name and brand stay.
\<close>

theorem item_resolution_priority:
  "(order_type (change_order_type (df_order_type f) order) \<in> {''sales'', ''service'', ''labour''} \<longrightarrow>
      (item_name (update_order_details cat f order), brand (update_order_details cat f order)) =
        (case resolve_item_spec cat f of
           Some p \<Rightarrow> p
         | None \<Rightarrow> (item_name (change_order_type (df_order_type f) order),
                     brand (change_order_type (df_order_type f) order)))) \<and>
   (order_type (change_order_type (df_order_type f) order) \<notin> {''sales'', ''service'', ''labour''} \<longrightarrow>
      (item_name (update_order_details cat f order), brand (update_order_details cat f order)) =
        (item_name (change_order_type (df_order_type f) order),
         brand (change_order_type (df_order_type f) order)))"
  using update_item_resolves [of "change_order_type (df_order_type f) order" cat f]
    update_item_gate [of "change_order_type (df_order_type f) order" cat f]
  by (simp add: update_order_details_def store_keep_item)

theorem item_resolution_priority_witness:
  "(item_name (update_order_details parts_catalog both_candidates blank_order),
    brand (update_order_details parts_catalog both_candidates blank_order)) =
     (Some ''Brake pad'', Some ''Bosch'') \<and>
   (item_name (update_order_details parts_catalog
                 (both_candidates\<lparr>df_order_type := Some ''inquiry''\<rparr>)
                 (blank_order\<lparr>order_type := ''sales'', item_name := Some ''Wiper''\<rparr>)),
    brand (update_order_details parts_catalog
             (both_candidates\<lparr>df_order_type := Some ''inquiry''\<rparr>)
             (blank_order\<lparr>order_type := ''sales'', item_name := Some ''Wiper''\<rparr>))) =
     (None, None)"
proof -
  let ?f = "both_candidates\<lparr>df_order_type := Some ''inquiry''\<rparr>"
  let ?o = "blank_order\<lparr>order_type := ''sales'', item_name := Some ''Wiper''\<rparr>"
  have t1: "change_order_type (df_order_type both_candidates) blank_order = blank_order"
    by (simp add: change_order_type_def both_candidates_def or_none_def truthy_def)
  have t3: "change_order_type (df_order_type ?f) ?o =
      ?o\<lparr>order_type := ''inquiry'', item_name := None, brand := None, quantity := None,
         description := []\<rparr>"
    by (simp add: change_order_type_def both_candidates_def or_none_def truthy_def
        blank_order_def)
  have r: "resolve_item_spec parts_catalog both_candidates = Some (Some ''Brake pad'', Some ''Bosch'')"
    by (simp add: candidate_defs item_defs)
  show ?thesis
    using item_resolution_priority [of both_candidates blank_order parts_catalog]
      item_resolution_priority [of ?f ?o parts_catalog]
    unfolding t1 t3 r
    by (simp add: blank_order_def)
qed

subsection \<open>Plate normalisation\<close>











lemma normalize_plate_example: "normalize_plate (Some '' kaa 123x '') = ''KAA 123X''"
  by code_simp




lemma check_plate_example:
  "api_check_plate one_car_db (Some 3) (Some '' kaa 123x '') =
     Plate_found regular_customer regular_car"
  by (simp add: api_check_plate_def normalize_plate_example find_vehicle_by_plate_def
      vehicle_rows_def get_customer_def iexact_def one_car_db_def regular_customer_def
      regular_car_def)



subsection \<open>Starting an order twice\<close>

lemma fold_max_ge: "a \<le> fold max ids (a::nat)"
  by (induction ids arbitrary: a) (auto intro: order_trans [OF max.cobounded2])

lemma fold_max_mem: "x \<in> set ids \<Longrightarrow> x \<le> fold max ids (a::nat)"
proof (induction ids arbitrary: a)
  case Nil
  then show ?case by simp
next
  case (Cons y ys)
  show ?case
  proof (cases "x = y")
    case True
    have "y \<le> max y a" by simp
    also have "\<dots> \<le> fold max ys (max y a)" by (rule fold_max_ge)
    finally show ?thesis using True by simp
  next
    case False
    with Cons show ?thesis by simp
  qed
qed

lemma next_id_fresh: "next_id ids \<notin> set ids"
  using fold_max_mem [of "next_id ids" ids 0] by (auto simp add: next_id_def)

lemma get_customer_Some: "get_customer cs i = Some c \<Longrightarrow> customer_id c = i \<and> c \<in> set cs"
  by (auto simp add: get_customer_def find_Some_iff)

lemma get_customer_None: "get_customer cs i = None \<longleftrightarrow> i \<notin> set (map customer_id cs)"
  by (auto simp add: get_customer_def find_None_iff)

lemma get_customer_distinct:
  "distinct (map customer_id cs) \<Longrightarrow> c \<in> set cs \<Longrightarrow> get_customer cs (customer_id c) = Some c"
  by (induction cs) (auto simp add: get_customer_def)

lemma get_customer_map:
  "(\<And>x. customer_id (f x) = customer_id x) \<Longrightarrow>
   get_customer (map f cs) i = map_option f (get_customer cs i)"
  by (induction cs) (auto simp add: get_customer_def)

lemma get_customer_append:
  "get_customer (cs @ [c]) i =
     (case get_customer cs i of Some x \<Rightarrow> Some x
      | None \<Rightarrow> if customer_id c = i then Some c else None)"
  by (induction cs) (auto simp add: get_customer_def)

lemma find_snoc:
  "find P (xs @ ys) = (case find P xs of Some x \<Rightarrow> Some x | None \<Rightarrow> find P ys)"
  by (induction xs) auto


lemma in_vehicle_rows:
  "(v, c) \<in> set (vehicle_rows d) \<longleftrightarrow>
     v \<in> set (vehicles d) \<and> get_customer (customers d) (vehicle_customer v) = Some c"
  by (auto simp add: vehicle_rows_def split: option.splits)

lemma find_vehicle_None:
  "find_vehicle_by_plate d ub plate = None \<longleftrightarrow>
     (\<forall>v c. v \<in> set (vehicles d) \<and> get_customer (customers d) (vehicle_customer v) = Some c
        \<longrightarrow> \<not> (iexact (plate_number v) plate \<and> customer_branch c = ub))"
  by (auto simp add: find_vehicle_by_plate_def find_None_iff in_vehicle_rows)

lemma create_or_get_customer_props:
  assumes "create_or_get_customer d ub n ph t = (c, da)" and "wf_db d"
  shows "distinct (map customer_id (customers da))"
    and "customer_branch c = ub"
    and "c \<in> set (customers da)"
    and "vehicles da = vehicles d"
    and "orders da = orders d"
    and "i \<in> set (map customer_id (customers d)) \<Longrightarrow>
           get_customer (customers da) i = get_customer (customers d) i"
proof -
  show "distinct (map customer_id (customers da))"
    using assms next_id_fresh [of "map customer_id (customers d)"]
    by (auto simp add: create_or_get_customer_def wf_db_def Let_def split: option.splits)
  show "customer_branch c = ub"
    using assms
    by (auto simp add: create_or_get_customer_def Let_def find_Some_iff split: option.splits)
  show "c \<in> set (customers da)"
    using assms
    by (auto simp add: create_or_get_customer_def Let_def find_Some_iff split: option.splits)
  show "vehicles da = vehicles d" "orders da = orders d"
    using assms
    by (auto simp add: create_or_get_customer_def Let_def split: option.splits)
  show "get_customer (customers da) i = get_customer (customers d) i"
    if "i \<in> set (map customer_id (customers d))"
    using assms that get_customer_None [of "customers d" i]
    by (auto simp add: create_or_get_customer_def Let_def get_customer_append
        split: option.splits)
qed


lemma iexact_refl: "iexact p p"
  by (simp add: iexact_def)

lemma first_call_shape:
  assumes wf: "wf_db d"
    and nf: "\<not> sr_force_new_order req"
    and nc: "given_id (sr_existing_customer_id req) = None"
    and first: "api_start_order cat d ub req now = (Order_started o1 pl, d1)"
  shows "\<exists>c cs v.
      pl = normalize_plate (sr_plate_number req) \<and> pl \<noteq> [] \<and>
      (case sr_order_type req of None \<Rightarrow> ''service'' | Some t \<Rightarrow> t) \<in> set valid_order_types \<and>
      find_vehicle_by_plate d ub pl = None \<and>
      distinct (map customer_id cs) \<and> c \<in> set cs \<and> customer_branch c = ub \<and>
      (\<forall>i \<in> set (map customer_id (customers d)). get_customer cs i = get_customer (customers d) i) \<and>
      vehicle_id v = next_id (map vehicle_id (vehicles d)) \<and>
      vehicle_customer v = customer_id c \<and> plate_number v = pl \<and>
      order_id o1 = next_id (map order_id (orders d)) \<and>
      order_vehicle o1 = Some (vehicle_id v) \<and> order_status o1 = Created \<and>
      d1 = \<lparr>customers = map (\<lambda>x. if customer_id x = customer_id c
                                   then x\<lparr>total_visits := Suc (total_visits x), last_visit := Some now\<rparr>
                                   else x) cs,
            vehicles = vehicles d @ [v], orders = orders d @ [o1]\<rparr>"
proof -
  define plate where "plate = normalize_plate (sr_plate_number req)"
  define otype where "otype = (case sr_order_type req of None \<Rightarrow> ''service'' | Some t \<Rightarrow> t)"
  from first nc nf have p1: "plate \<noteq> []" and p2: "otype \<in> set valid_order_types"
    and fv: "find_vehicle_by_plate d ub plate = None"
    and po: "place_order cat d ub None plate otype req now = (Order_started o1 pl, d1)"
    by (auto simp add: api_start_order_def Let_def plate_def otype_def
        split: if_splits option.splits prod.splits)
  obtain c da where cg: "create_or_get_customer d ub (''Plate '' @ plate)
      (Some (''PLATE_'' @ plate)) ''personal'' = (c, da)"
    by (cases "create_or_get_customer d ub (''Plate '' @ plate)
      (Some (''PLATE_'' @ plate)) ''personal''")
  note cp = create_or_get_customer_props [OF cg wf]
  have gc: "get_customer (customers da) (customer_id c) = Some c"
    using cp(1) cp(3) by (rule get_customer_distinct)
  have nov: "find (\<lambda>v. vehicle_customer v = customer_id c \<and> plate_number v = plate)
      (vehicles da) = None"
  proof (rule ccontr)
    assume "find (\<lambda>v. vehicle_customer v = customer_id c \<and> plate_number v = plate)
      (vehicles da) \<noteq> None"
    then obtain v0 where v0: "v0 \<in> set (vehicles d)" "vehicle_customer v0 = customer_id c"
      "plate_number v0 = plate"
      using cp(4) by (auto simp add: find_None_iff)
    from v0(1) wf have "vehicle_customer v0 \<in> set (map customer_id (customers d))"
      by (simp add: wf_db_def list_all_iff)
    with cp(6) v0(2) gc have "get_customer (customers d) (vehicle_customer v0) = Some c"
      by simp
    with fv v0 cp(2) show False
      by (auto simp add: find_vehicle_None iexact_refl)
  qed
  define v where "v = \<lparr>vehicle_id = next_id (map vehicle_id (vehicles da)),
      vehicle_customer = customer_id c, plate_number = plate,
      vehicle_make = None, vehicle_model = None\<rparr>"
  have cv: "create_or_get_vehicle da c plate = (v, da\<lparr>vehicles := vehicles da @ [v]\<rparr>)"
    using nov by (simp add: create_or_get_vehicle_def v_def Let_def)
  have fresh: "vehicle_id v \<notin> set (map vehicle_id (vehicles d))"
    using next_id_fresh [of "map vehicle_id (vehicles d)"] cp(4) by (simp add: v_def)
  have noo: "orders_of_vehicle (da\<lparr>vehicles := vehicles da @ [v]\<rparr>) v sts = []" for sts
    using wf fresh cp(5)
    by (auto simp add: orders_of_vehicle_def wf_db_def list_all_iff filter_empty_conv
        split: option.splits)
  have ru: "reusable_order (da\<lparr>vehicles := vehicles da @ [v]\<rparr>) (Some v) = None"
    by (simp add: reusable_order_def noo)
  from po cg cv ru p1 nf
  have o1: "o1 = fst (create_order (da\<lparr>vehicles := vehicles da @ [v]\<rparr>) c otype ub (Some v)
                     (start_description plate (sr_service_selection req))
                     (start_estimate cat otype req) now)"
    and d1: "d1 = snd (create_order (da\<lparr>vehicles := vehicles da @ [v]\<rparr>) c otype ub (Some v)
                     (start_description plate (sr_service_selection req))
                     (start_estimate cat otype req) now)"
    and pl: "pl = plate"
    by (auto simp add: place_order_def Let_def split: prod.splits)
  show ?thesis
    apply (rule exI [of _ c], rule exI [of _ "customers da"], rule exI [of _ v])
    using p1 p2 fv cp gc
    by (simp add: pl o1 d1 plate_def [symmetric] otype_def [symmetric] create_order_def Let_def
        update_customer_visit_def v_def)
qed


lemma second_call:
  assumes wf: "wf_db d"
    and nf: "\<not> sr_force_new_order req"
    and nc: "given_id (sr_existing_customer_id req) = None"
    and pl: "pl = normalize_plate (sr_plate_number req)" "pl \<noteq> []"
    and ot: "(case sr_order_type req of None \<Rightarrow> ''service'' | Some t \<Rightarrow> t) \<in> set valid_order_types"
    and fv: "find_vehicle_by_plate d ub pl = None"
    and cs: "distinct (map customer_id cs)" "c \<in> set cs" "customer_branch c = ub"
      "\<forall>i \<in> set (map customer_id (customers d)). get_customer cs i = get_customer (customers d) i"
    and f: "\<And>x. customer_id (f x) = customer_id x" "\<And>x. customer_branch (f x) = customer_branch x"
    and v: "vehicle_id v = next_id (map vehicle_id (vehicles d))"
      "vehicle_customer v = customer_id c" "plate_number v = pl"
    and o2: "order_vehicle o2 = Some (vehicle_id v)" "order_status o2 \<in> {Created, In_progress}"
    and d1: "d1 = \<lparr>customers = map f cs, vehicles = vehicles d @ [v], orders = orders d @ [o2]\<rparr>"
  shows "api_start_order cat d1 ub req now2 = (Existing_order o2 pl, d1)"
    and "filter (\<lambda>x. order_vehicle x = order_vehicle o2) (orders d1) = [o2]"
proof -
  have gcf: "get_customer (map f cs) i = map_option f (get_customer cs i)" for i
    using f(1) by (rule get_customer_map)
  have gc: "get_customer (map f cs) (customer_id c) = Some (f c)"
    using get_customer_distinct [OF cs(1) cs(2)] by (simp add: gcf)
  let ?P = "\<lambda>(v, c). iexact (plate_number v) pl \<and> customer_branch c = ub"
  let ?g = "\<lambda>v. case get_customer (map f cs) (vehicle_customer v) of
                    None \<Rightarrow> [] | Some c \<Rightarrow> [(v, c)]"
  have old: "find ?P (concat (map ?g (vehicles d))) = None"
  proof -
    have "\<not> ?P (v0, c0)" if m: "(v0, c0) \<in> set (concat (map ?g (vehicles d)))" for v0 c0
    proof -
      from m have v0: "v0 \<in> set (vehicles d)"
        and g0: "get_customer (map f cs) (vehicle_customer v0) = Some c0"
        by (auto split: option.splits)
      from g0 obtain c00 where c00: "get_customer cs (vehicle_customer v0) = Some c00" "c0 = f c00"
        by (auto simp add: gcf)
      from v0 wf have "vehicle_customer v0 \<in> set (map customer_id (customers d))"
        by (simp add: wf_db_def list_all_iff)
      with cs(4) c00(1) have "get_customer (customers d) (vehicle_customer v0) = Some c00"
        by auto
      with fv v0 have "\<not> (iexact (plate_number v0) pl \<and> customer_branch c00 = ub)"
        by (simp add: find_vehicle_None)
      then show ?thesis by (simp add: c00(2) f(2))
    qed
    then show ?thesis by (auto simp add: find_None_iff)
  qed
  have rows: "vehicle_rows d1 = concat (map ?g (vehicles d)) @ [(v, f c)]"
    by (simp add: vehicle_rows_def d1 v(2) gc)
  have fv1: "find_vehicle_by_plate d1 ub pl = Some (v, f c)"
    by (simp add: find_vehicle_by_plate_def rows find_snoc old v(3) iexact_refl f(2) cs(3))
  have fresh: "vehicle_id v \<notin> set (map vehicle_id (vehicles d))"
    using next_id_fresh [of "map vehicle_id (vehicles d)"] by (simp add: v(1))
  have none: "filter (\<lambda>x. order_vehicle x = Some (vehicle_id v) \<and> Q x) (orders d) = []" for Q
    using wf fresh
    by (auto simp add: wf_db_def list_all_iff filter_empty_conv split: option.splits)
  have oo: "orders_of_vehicle d1 v [Created, In_progress] = [o2]"
    using o2 none [of "\<lambda>x. order_status x \<in> set [Created, In_progress]"]
    by (simp add: orders_of_vehicle_def d1)
  show "api_start_order cat d1 ub req now2 = (Existing_order o2 pl, d1)"
    using nf nc pl(2) ot
    by (simp add: api_start_order_def Let_def pl(1) [symmetric] fv1 oo)
  show "filter (\<lambda>x. order_vehicle x = order_vehicle o2) (orders d1) = [o2]"
    using none [of "\<lambda>x. True"] by (simp add: d1 o2(1))
qed


lemma save_order_snoc:
  "order_id o1 \<notin> set (map order_id os) \<Longrightarrow> order_id o2 = order_id o1 \<Longrightarrow>
   save_order o2 (os @ [o1]) = os @ [o2]"
  by (induction os) (auto simp add: save_order_def)

text \<open>
  Claim C5. The tables are well formed, the request does not force a new order and names no
  customer, and the first call answered with a newly started order. Then the second call
  with the same request answers with that very order as the existing one and leaves every
  table as it was; the order is the only one of its vehicle and has status \<open>Created\<close>; and
  once the order has moved to \<open>In_progress\<close> the second call still answers with it and
  writes nothing.
\<close>

theorem start_order_twice:
  assumes wf: "wf_db d"
    and nf: "\<not> sr_force_new_order req"
    and nc: "given_id (sr_existing_customer_id req) = None"
    and first: "api_start_order cat d ub req now1 = (Order_started o1 pl, d1)"
  shows "api_start_order cat d1 ub req now2 = (Existing_order o1 pl, d1) \<and>
    filter (\<lambda>x. order_vehicle x = order_vehicle o1) (orders d1) = [o1] \<and>
    order_status o1 = Created \<and>
    api_start_order cat
        (d1\<lparr>orders := save_order (o1\<lparr>order_status := In_progress, started_at := Some t\<rparr>)
                         (orders d1)\<rparr>) ub req now2 =
      (Existing_order (o1\<lparr>order_status := In_progress, started_at := Some t\<rparr>) pl,
       d1\<lparr>orders := save_order (o1\<lparr>order_status := In_progress, started_at := Some t\<rparr>)
                        (orders d1)\<rparr>)"
proof -
  let ?f = "\<lambda>c x. if customer_id x = customer_id c
                    then x\<lparr>total_visits := Suc (total_visits x), last_visit := Some now1\<rparr>
                    else x"
  let ?o2 = "o1\<lparr>order_status := In_progress, started_at := Some t\<rparr>"
  from first_call_shape [OF wf nf nc first] obtain c cs v where
    pl: "pl = normalize_plate (sr_plate_number req)" "pl \<noteq> []"
    and ot: "(case sr_order_type req of None \<Rightarrow> ''service'' | Some t \<Rightarrow> t) \<in> set valid_order_types"
    and fv: "find_vehicle_by_plate d ub pl = None"
    and cs: "distinct (map customer_id cs)" "c \<in> set cs" "customer_branch c = ub"
      "\<forall>i \<in> set (map customer_id (customers d)). get_customer cs i = get_customer (customers d) i"
    and v: "vehicle_id v = next_id (map vehicle_id (vehicles d))"
      "vehicle_customer v = customer_id c" "plate_number v = pl"
    and o1: "order_id o1 = next_id (map order_id (orders d))"
      "order_vehicle o1 = Some (vehicle_id v)" "order_status o1 = Created"
    and d1: "d1 = \<lparr>customers = map (?f c) cs, vehicles = vehicles d @ [v], orders = orders d @ [o1]\<rparr>"
    by blast
  have f: "\<And>x. customer_id (?f c x) = customer_id x" "\<And>x. customer_branch (?f c x) = customer_branch x"
    by simp_all
  have a: "api_start_order cat d1 ub req now2 = (Existing_order o1 pl, d1)"
    and b: "filter (\<lambda>x. order_vehicle x = order_vehicle o1) (orders d1) = [o1]"
    using second_call [OF wf nf nc pl ot fv cs f v o1(2) _ d1] o1(3) by simp_all
  have fresh: "order_id o1 \<notin> set (map order_id (orders d))"
    using next_id_fresh [of "map order_id (orders d)"] by (simp add: o1(1))
  have d2: "d1\<lparr>orders := save_order ?o2 (orders d1)\<rparr> =
      \<lparr>customers = map (?f c) cs, vehicles = vehicles d @ [v], orders = orders d @ [?o2]\<rparr>"
    using save_order_snoc [OF fresh, of ?o2] by (simp add: d1)
  have c: "api_start_order cat (d1\<lparr>orders := save_order ?o2 (orders d1)\<rparr>) ub req now2 =
      (Existing_order ?o2 pl, d1\<lparr>orders := save_order ?o2 (orders d1)\<rparr>)"
    using second_call(1) [OF wf nf nc pl ot fv cs f v _ _ d2, of cat now2] o1(2) by simp
  from a b c o1(3) show ?thesis by simp
qed

lemma first_start_example:
  "api_start_order no_catalog empty_db (Some 3) (plate_request '' kaa 123x '') 50 =
     (Order_started started_order ''KAA 123X'', started_db)"
  by (simp add: api_start_order_def normalize_plate_example plate_request_def given_id_def valid_order_types_def
      find_vehicle_by_plate_def vehicle_rows_def empty_db_def place_order_def
      create_or_get_customer_def create_or_get_vehicle_def next_id_def reusable_order_def
      orders_of_vehicle_def create_order_def update_customer_visit_def start_description_def
      start_estimate_def truthy_int_def started_order_def started_db_def plate_customer_def
      Let_def)

theorem start_order_twice_witness:
  "wf_db empty_db \<and>
   api_start_order no_catalog empty_db (Some 3) (plate_request '' kaa 123x '') 50 =
     (Order_started started_order ''KAA 123X'', started_db) \<and>
   api_start_order no_catalog started_db (Some 3) (plate_request '' kaa 123x '') 80 =
     (Existing_order started_order ''KAA 123X'', started_db) \<and>
   filter (\<lambda>x. order_vehicle x = order_vehicle started_order) (orders started_db) =
     [started_order]"
proof -
  have wf: "wf_db empty_db" by (simp add: wf_db_def empty_db_def)
  have nf: "\<not> sr_force_new_order (plate_request '' kaa 123x '')" by (simp add: plate_request_def)
  have nc: "given_id (sr_existing_customer_id (plate_request '' kaa 123x '')) = None"
    by (simp add: plate_request_def given_id_def)
  from start_order_twice [OF wf nf nc first_start_example, of 80 0] wf first_start_example
  show ?thesis by simp
qed

subsection \<open>Customer fields\<close>

lemma validated_fields_invariant:
  "validate_customer_fields f = None \<Longrightarrow>
   (if fld_type f \<in> {''company'', ''government'', ''ngo''}
    then fld_organization f \<noteq> [] \<and> fld_tax f \<noteq> []
    else fld_type f = ''personal'' \<and> fld_subtype f \<noteq> [])"
  by (auto simp add: validate_customer_fields_def split: if_splits)

lemma start_order_placeholder_customer:
  "customers (snd (api_start_order no_catalog empty_db (Some 3)
      (plate_request '' kaa 123x '') 50)) = [plate_customer] \<and>
   \<not> customer_invariant plate_customer"
  by (simp add: first_start_example started_db_def customer_invariant_def plate_customer_def
      truthy_def)

text \<open>
  Claim C9. The \<^verbatim>\<open>update_customer\<close> action of the started-order view writes the
  customer type it is sent and checks nothing: a personal customer with subtype \<open>owner\<close>
  and no organisation is turned into a \<open>company\<close> without organisation name and tax
  number. The forms of \<^verbatim>\<open>api_create_order_from_modal\<close> and
  \<^verbatim>\<open>api_update_order_from_extraction\<close> are checked (\<open>validated_fields_invariant\<close>).
\<close>

theorem update_customer_breaks_invariant:
  "customer_invariant regular_customer \<and>
   started_order_detail (overdue_at 60) no_catalog one_car_db (clerk (Some 3)) 1
       (Update_customer \<lparr>uf_full_name = None, uf_phone = None, uf_email = None,
          uf_address = None, uf_customer_type = Some ''company'',
          uf_personal_subtype = None\<rparr>) 60 =
     (Page blank_order False,
      one_car_db\<lparr>customers := [regular_customer\<lparr>customer_type := ''company''\<rparr>]\<rparr>) \<and>
   \<not> customer_invariant (regular_customer\<lparr>customer_type := ''company''\<rparr>)"
  by (simp add: started_order_detail_def get_order_def get_customer_def save_customer_def
      update_customer_def branch_mismatch_def or_none_def or_default_def truthy_def strip_def
      customer_invariant_def one_car_db_def regular_customer_def regular_car_def
      blank_order_def clerk_def)

end
